theory Spec2Isabelle
  imports Complex_Main "HOL-Library.Word"
begin

section \<open>JavaScript strings\<close>

text \<open>
  A JavaScript string is a sequence of 16-bit UTF-16 code units. Nothing forces the
  sequence to be well-formed UTF-16: a surrogate code unit may stand alone.
  String literals of the source are ASCII; \<open>js\<close> turns an Isabelle literal into the
  code units of the same text.
\<close>

type_synonym jsstring = "16 word list"

definition js :: "string \<Rightarrow> jsstring" where
  "js cs = map of_char cs"

text \<open>
  The exceptions the component can meet: \<open>encodeURIComponent\<close> throws a URIError on an
  unpaired surrogate, and \<open>SpeechRecognition.start()\<close> throws an InvalidStateError on a
  session that is already started.
\<close>

datatype js_error = URIError | InvalidStateError

subsection \<open>White space: \<open>String.prototype.trim\<close> and the regular expression class \<open>\s\<close>\<close>

text \<open>
  Both \<open>trim\<close> and \<open>\s\<close> (without the unicode flag) use the code units of the ECMAScript
  productions WhiteSpace and LineTerminator: TAB, LF, VT, FF, CR, SP, NBSP, U+1680,
  U+2000 to U+200A, LS, PS, U+202F, U+205F, U+3000 and the byte order mark U+FEFF.
\<close>

definition isWhiteSpace :: "16 word \<Rightarrow> bool" where
  "isWhiteSpace c =
     ((0x09 \<le> c \<and> c \<le> 0x0D) \<or> c = 0x20 \<or> c = 0xA0 \<or> c = 0x1680
      \<or> (0x2000 \<le> c \<and> c \<le> 0x200A) \<or> c = 0x2028 \<or> c = 0x2029 \<or> c = 0x202F
      \<or> c = 0x205F \<or> c = 0x3000 \<or> c = 0xFEFF)"

definition trim :: "jsstring \<Rightarrow> jsstring" where
  "trim s = rev (dropWhile isWhiteSpace (rev (dropWhile isWhiteSpace s)))"

text \<open>
  \<open>query.replace(/\s+/g, '_')\<close>: every maximal run of white space becomes one underscore.
\<close>

function replaceWhiteSpace :: "jsstring \<Rightarrow> jsstring" where
  "replaceWhiteSpace [] = []"
| "replaceWhiteSpace (c # cs) =
     (if isWhiteSpace c then 0x5F # replaceWhiteSpace (dropWhile isWhiteSpace cs)
      else c # replaceWhiteSpace cs)"
  by pat_completeness auto
termination
  by (relation "measure length") (auto simp: less_Suc_eq_le length_dropWhile_le)

subsection \<open>\<open>encodeURIComponent\<close>\<close>

text \<open>
  The abstract operation Encode of ECMAScript with the unreserved set of
  \<open>encodeURIComponent\<close>: letters, digits and \<open>- _ . ! ~ * ' ( )\<close> are copied; every other
  code point is written as the percent-escaped octets of its UTF-8 encoding, two upper
  case hexadecimal digits each; an unpaired surrogate throws URIError.
\<close>

definition uriUnreserved :: "16 word \<Rightarrow> bool" where
  "uriUnreserved c =
     ((0x41 \<le> c \<and> c \<le> 0x5A) \<or> (0x61 \<le> c \<and> c \<le> 0x7A) \<or> (0x30 \<le> c \<and> c \<le> 0x39)
      \<or> c = 0x2D \<or> c = 0x5F \<or> c = 0x2E \<or> c = 0x21 \<or> c = 0x7E \<or> c = 0x2A
      \<or> c = 0x27 \<or> c = 0x28 \<or> c = 0x29)"

definition isLeadingSurrogate :: "16 word \<Rightarrow> bool" where
  "isLeadingSurrogate c = (0xD800 \<le> c \<and> c \<le> 0xDBFF)"

definition isTrailingSurrogate :: "16 word \<Rightarrow> bool" where
  "isTrailingSurrogate c = (0xDC00 \<le> c \<and> c \<le> 0xDFFF)"

definition surrogatePairToCodePoint :: "16 word \<Rightarrow> 16 word \<Rightarrow> nat" where
  "surrogatePairToCodePoint lead trail =
     (unat lead - 0xD800) * 0x400 + (unat trail - 0xDC00) + 0x10000"

definition utf8Octets :: "nat \<Rightarrow> nat list" where
  "utf8Octets cp =
     (if cp < 0x80 then [cp]
      else if cp < 0x800 then [0xC0 + cp div 0x40, 0x80 + cp mod 0x40]
      else if cp < 0x10000 then
        [0xE0 + cp div 0x1000, 0x80 + cp div 0x40 mod 0x40, 0x80 + cp mod 0x40]
      else
        [0xF0 + cp div 0x40000, 0x80 + cp div 0x1000 mod 0x40,
         0x80 + cp div 0x40 mod 0x40, 0x80 + cp mod 0x40])"

definition hexDigit :: "nat \<Rightarrow> 16 word" where
  "hexDigit d = (if d < 10 then 0x30 + of_nat d else 0x41 + of_nat (d - 10))"

definition percentOctet :: "nat \<Rightarrow> jsstring" where
  "percentOctet b = [0x25, hexDigit (b div 16), hexDigit (b mod 16)]"

definition percentEscape :: "nat \<Rightarrow> jsstring" where
  "percentEscape cp = concat (map percentOctet (utf8Octets cp))"

fun encodeURIComponent :: "jsstring \<Rightarrow> js_error + jsstring" where
  "encodeURIComponent [] = Inr []"
| "encodeURIComponent (c # cs) =
     (if uriUnreserved c then map_sum id ((#) c) (encodeURIComponent cs)
      else if isTrailingSurrogate c then Inl URIError
      else if isLeadingSurrogate c then
        (case cs of
           [] \<Rightarrow> Inl URIError
         | d # ds \<Rightarrow>
             if isTrailingSurrogate d
             then map_sum id ((@) (percentEscape (surrogatePairToCodePoint c d)))
                    (encodeURIComponent ds)
             else Inl URIError)
      else map_sum id ((@) (percentEscape (unat c))) (encodeURIComponent cs))"

text \<open>\<open>String.prototype.isWellFormed\<close>: no surrogate code unit stands outside a pair.\<close>

fun isWellFormed :: "jsstring \<Rightarrow> bool" where
  "isWellFormed [] = True"
| "isWellFormed (c # cs) =
     (if isTrailingSurrogate c then False
      else if isLeadingSurrogate c then
        (case cs of [] \<Rightarrow> False | d # ds \<Rightarrow> isTrailingSurrogate d \<and> isWellFormed ds)
      else isWellFormed cs)"

text \<open>A template literal writes a number in decimal.\<close>

fun numberToString :: "nat \<Rightarrow> jsstring" where
  "numberToString n =
     (if n < 10 then [0x30 + of_nat n]
      else numberToString (n div 10) @ [0x30 + of_nat (n mod 10)])"

section \<open>The result synthesizer\<close>

record SearchResult =
  id' :: jsstring
  title :: jsstring
  description :: jsstring
  url :: jsstring
  snippet :: jsstring

definition generateSearchResults :: "jsstring \<Rightarrow> js_error + SearchResult list" where
  "generateSearchResults query =
     (case encodeURIComponent query of
        Inl e \<Rightarrow> Inl e
      | Inr encodedQuery \<Rightarrow> Inr
         [\<lparr>id' = js ''1'',
           title = query @ js '' - Wikipedia'',
           description =
             js ''Learn comprehensive information about '' @ query @ js '' on Wikipedia'',
           url = js ''https://en.wikipedia.org/wiki/'' @ replaceWhiteSpace query,
           snippet = js ''Discover detailed information about '' @ query
             @ js '' including its history, definition, and related topics. Wikipedia provides reliable, well-sourced content that's perfect for learning and research.''\<rparr>,
          \<lparr>id' = js ''2'',
           title = query @ js '' - YouTube Tutorials'',
           description = js ''Watch educational videos about '' @ query,
           url = js ''https://www.youtube.com/results?search_query='' @ encodedQuery
             @ js ''+tutorial'',
           snippet = js ''Visual learning made easy! Watch step-by-step tutorials, expert explanations, and practical demonstrations about ''
             @ query @ js '' from top educators and professionals.''\<rparr>,
          \<lparr>id' = js ''3'',
           title = query @ js '' - Khan Academy'',
           description = js ''Free online courses and lessons about '' @ query,
           url = js ''https://www.khanacademy.org/search?page_search_query='' @ encodedQuery,
           snippet = js ''Access free, world-class education materials about '' @ query
             @ js ''. Khan Academy offers structured learning paths, practice exercises, and expert instruction.''\<rparr>,
          \<lparr>id' = js ''4'',
           title = query @ js '' - Coursera Courses'',
           description =
             js ''Professional courses and certifications related to '' @ query,
           url = js ''https://www.coursera.org/search?query='' @ encodedQuery,
           snippet = js ''Advance your knowledge with university-level courses about ''
             @ query
             @ js ''. Learn from top institutions and industry experts with hands-on projects and certificates.''\<rparr>,
          \<lparr>id' = js ''5'',
           title = query @ js '' - Reddit Discussions'',
           description =
             js ''Community discussions and real experiences about '' @ query,
           url = js ''https://www.reddit.com/search/?q='' @ encodedQuery,
           snippet = js ''Join the conversation! Read real experiences, ask questions, and get practical advice about ''
             @ query @ js '' from a vibrant community of learners and experts.''\<rparr>,
          \<lparr>id' = js ''6'',
           title = query @ js '' - Google Scholar'',
           description =
             js ''Academic research and scholarly articles about '' @ query,
           url = js ''https://scholar.google.com/scholar?q='' @ encodedQuery,
           snippet = js ''Access peer-reviewed research papers, academic studies, and scholarly articles about ''
             @ query @ js ''. Perfect for in-depth research and academic learning.''\<rparr>])"

section \<open>The component\<close>

subsection \<open>Platform capabilities and effects\<close>

text \<open>
  What the component finds in \<open>window\<close>: a speech-recognition constructor
  (\<open>SpeechRecognition\<close> or \<open>webkitSpeechRecognition\<close>) and \<open>speechSynthesis\<close>.
\<close>

record platform =
  hasSpeechRecognition :: bool
  hasSpeechSynthesis :: bool

text \<open>The recognition instance as the mount effect configures it.\<close>

record SpeechRecognition =
  rec_continuous :: bool
  rec_interimResults :: bool
  rec_lang :: jsstring

datatype variant = destructive

record notice =
  toast_title :: jsstring
  toast_description :: jsstring
  toast_variant :: "variant option"

text \<open>
  An utterance handed to \<open>speechSynthesis.speak\<close>. The decimal literals of the source
  stand for the doubles nearest to them; they are compared with the platform defaults
  only, which are 1 for rate, pitch and volume in the Web Speech API.
\<close>

record SpeechSynthesisUtterance =
  utterance_text :: jsstring
  rate :: real
  pitch :: real
  volume :: real

definition defaultRate :: real where "defaultRate = 1"
definition defaultPitch :: real where "defaultPitch = 1"
definition defaultVolume :: real where "defaultVolume = 1"

text \<open>
  Everything the component does that is visible from outside, in the order it does it:
  calls of the state setters, notices, utterances, timers, calls on the recognition
  instance, console output and opened windows.
\<close>

datatype action =
    SetSearchQuery jsstring
  | SetIsListening bool
  | SetSearchResults "SearchResult list"
  | SetIsLoading bool
  | SetRecognition SpeechRecognition
  | Toast notice
  | Speak SpeechSynthesisUtterance
  | SetTimeout nat
  | RecognitionStart
  | RecognitionStop
  | ConsoleError jsstring jsstring
  | ConsoleWarn jsstring
  | WindowOpen jsstring jsstring jsstring

subsection \<open>State\<close>

text \<open>
  The five \<open>useState\<close> cells, then what lives outside React: \<open>pending\<close> holds the
  queries of the \<open>handleSearch\<close> invocations suspended at their \<open>await\<close>, oldest first
  (every timer has the same delay, so they expire in the order they were set);
  \<open>sessionStarted\<close> is the started flag of the recognition instance; \<open>trace\<close> is the
  log of actions.
\<close>

record state =
  searchQuery :: jsstring
  isListening :: bool
  searchResults :: "SearchResult list"
  isLoading :: bool
  recognition :: "SpeechRecognition option"
  pending :: "jsstring list"
  sessionStarted :: bool
  trace :: "action list"

definition initialState :: state where
  "initialState =
     \<lparr>searchQuery = [], isListening = False, searchResults = [], isLoading = False,
      recognition = None, pending = [], sessionStarted = False, trace = []\<rparr>"

definition emit :: "action \<Rightarrow> state \<Rightarrow> state" where
  "emit a s = s\<lparr>trace := trace s @ [a]\<rparr>"

definition setSearchQuery :: "jsstring \<Rightarrow> state \<Rightarrow> state" where
  "setSearchQuery q s = emit (SetSearchQuery q) (s\<lparr>searchQuery := q\<rparr>)"

definition setIsListening :: "bool \<Rightarrow> state \<Rightarrow> state" where
  "setIsListening b s = emit (SetIsListening b) (s\<lparr>isListening := b\<rparr>)"

definition setSearchResults :: "SearchResult list \<Rightarrow> state \<Rightarrow> state" where
  "setSearchResults rs s = emit (SetSearchResults rs) (s\<lparr>searchResults := rs\<rparr>)"

definition setIsLoading :: "bool \<Rightarrow> state \<Rightarrow> state" where
  "setIsLoading b s = emit (SetIsLoading b) (s\<lparr>isLoading := b\<rparr>)"

definition setRecognition :: "SpeechRecognition \<Rightarrow> state \<Rightarrow> state" where
  "setRecognition r s = emit (SetRecognition r) (s\<lparr>recognition := Some r\<rparr>)"

definition toast :: "notice \<Rightarrow> state \<Rightarrow> state" where
  "toast n s = emit (Toast n) s"

subsection \<open>Speech output and search\<close>

definition speakResult :: "platform \<Rightarrow> jsstring \<Rightarrow> state \<Rightarrow> state" where
  "speakResult p text s =
     (if hasSpeechSynthesis p
      then emit (Speak \<lparr>utterance_text = text, rate = 0.8, pitch = 1, volume = 0.8\<rparr>) s
      else s)"

text \<open>
  \<open>handleSearch\<close> up to its \<open>await\<close>: the guard, \<open>setIsLoading(true)\<close>, and the timer of
  1000 ms whose expiry resumes the invocation.
\<close>

definition handleSearch :: "jsstring \<Rightarrow> state \<Rightarrow> state" where
  "handleSearch query s =
     (if trim query = [] then s
      else emit (SetTimeout 1000) (setIsLoading True s)\<lparr>pending := pending s @ [query]\<rparr>)"

text \<open>
  \<open>handleSearch\<close> after its \<open>await\<close>. An exception of the synthesizer rejects the
  promise of the invocation (\<open>Inl\<close>): nothing after it runs, and nobody handles it.
\<close>

definition handleSearch_resume :: "platform \<Rightarrow> jsstring \<Rightarrow> state \<Rightarrow> js_error + state" where
  "handleSearch_resume p query s =
     (case generateSearchResults query of
        Inl e \<Rightarrow> Inl e
      | Inr results \<Rightarrow>
          Inr (speakResult p
                 (js ''Found '' @ numberToString (length results)
                    @ js '' learning resources for '' @ query
                    @ js ''. Click any result to start learning!'')
                 (setIsLoading False (setSearchResults results s))))"

definition timerExpires :: "platform \<Rightarrow> state \<Rightarrow> state" where
  "timerExpires p s =
     (case pending s of
        [] \<Rightarrow> s
      | query # rest \<Rightarrow>
          (case handleSearch_resume p query (s\<lparr>pending := rest\<rparr>) of
             Inl e \<Rightarrow> s\<lparr>pending := rest\<rparr>
           | Inr s' \<Rightarrow> s'))"

subsection \<open>Speech input\<close>

definition mount :: "platform \<Rightarrow> state" where
  "mount p =
     (if hasSpeechRecognition p
      then setRecognition
             \<lparr>rec_continuous = False, rec_interimResults = False, rec_lang = js ''en-US''\<rparr>
             initialState
      else emit (ConsoleWarn (js ''Speech recognition not supported'')) initialState)"

definition onstart :: "state \<Rightarrow> state" where
  "onstart s =
     toast \<lparr>toast_title = js ''Listening...'',
            toast_description = js ''Speak now to search'',
            toast_variant = None\<rparr>
       (setIsListening True s)"

definition onresult :: "jsstring \<Rightarrow> state \<Rightarrow> state" where
  "onresult transcript s = handleSearch transcript (setSearchQuery transcript s)"

definition onerror :: "jsstring \<Rightarrow> state \<Rightarrow> state" where
  "onerror err s =
     toast \<lparr>toast_title = js ''Voice Recognition Error'',
            toast_description = js ''Please try again or use text input'',
            toast_variant = Some destructive\<rparr>
       (setIsListening False
          (emit (ConsoleError (js ''Speech recognition error:'') err) s))"

definition onend :: "state \<Rightarrow> state" where
  "onend s = setIsListening False s"

text \<open>\<open>recognition.start()\<close> throws on an instance that is already started.\<close>

definition recognition_start :: "state \<Rightarrow> js_error + state" where
  "recognition_start s =
     (if sessionStarted s then Inl InvalidStateError
      else Inr (emit RecognitionStart (s\<lparr>sessionStarted := True\<rparr>)))"

definition startVoiceRecognition :: "state \<Rightarrow> js_error + state" where
  "startVoiceRecognition s =
     (case recognition s of
        Some r \<Rightarrow> recognition_start s
      | None \<Rightarrow>
          Inr (toast \<lparr>toast_title = js ''Voice Recognition Not Supported'',
                      toast_description =
                        js ''Your browser doesn't support voice recognition'',
                      toast_variant = Some destructive\<rparr> s))"

definition stopVoiceRecognition :: "state \<Rightarrow> state" where
  "stopVoiceRecognition s =
     (case recognition s of Some r \<Rightarrow> emit RecognitionStop s | None \<Rightarrow> s)"

subsection \<open>The view's handlers and the event loop\<close>

definition onSearchSubmit :: "state \<Rightarrow> state" where
  "onSearchSubmit s = handleSearch (searchQuery s) s"

definition handleResultClick :: "jsstring \<Rightarrow> jsstring \<Rightarrow> state \<Rightarrow> state" where
  "handleResultClick u t s =
     toast \<lparr>toast_title = js ''Opening Resource'',
            toast_description = js ''Opening '' @ t @ js '' in a new tab'',
            toast_variant = None\<rparr>
       (emit (WindowOpen u (js ''_blank'') (js ''noopener,noreferrer'')) s)"

definition readResults :: "platform \<Rightarrow> state \<Rightarrow> state" where
  "readResults p s =
     speakResult p
       (js ''Found '' @ numberToString (length (searchResults s))
          @ js '' learning resources for '' @ searchQuery s
          @ js ''. Click any result to start learning!'') s"

datatype topic = MachineLearning | WebDevelopment | Cooking | Photography

fun topicQuery :: "topic \<Rightarrow> jsstring" where
  "topicQuery MachineLearning = js ''machine learning''"
| "topicQuery WebDevelopment = js ''web development''"
| "topicQuery Cooking = js ''cooking''"
| "topicQuery Photography = js ''photography''"

text \<open>
  One event of the browser's event loop. The recognition events reach the component
  through the handlers installed on the instance, so without an instance there are none;
  the platform clears the started flag when a session ends. A control that is not
  rendered or is disabled cannot be used: the submit button is disabled while loading,
  the quick-pick buttons are rendered while nothing is loading and the results and the
  query are empty, the read button and the cards while there are results. An exception
  thrown by a handler leaves the state as it was.
\<close>

datatype event =
    InputChange jsstring
  | Submit
  | MicClick
  | QuickPick topic
  | ReadResults
  | CardClick nat
  | CardSpeak nat
  | RecognitionOnStart
  | RecognitionOnResult jsstring
  | RecognitionOnError jsstring
  | RecognitionOnEnd
  | TimerExpires

fun step :: "platform \<Rightarrow> event \<Rightarrow> state \<Rightarrow> state" where
  "step p (InputChange v) s = setSearchQuery v s"
| "step p Submit s = (if isLoading s then s else onSearchSubmit s)"
| "step p MicClick s =
     (if isListening s then stopVoiceRecognition s
      else (case startVoiceRecognition s of Inl e \<Rightarrow> s | Inr s' \<Rightarrow> s'))"
| "step p (QuickPick t) s =
     (if \<not> isLoading s \<and> searchResults s = [] \<and> searchQuery s = []
      then handleSearch (topicQuery t) s
      else s)"
| "step p ReadResults s = (if searchResults s = [] then s else readResults p s)"
| "step p (CardClick i) s =
     (if i < length (searchResults s)
      then handleResultClick (url (searchResults s ! i)) (title (searchResults s ! i)) s
      else s)"
| "step p (CardSpeak i) s =
     (if i < length (searchResults s)
      then speakResult p (snippet (searchResults s ! i)) s
      else s)"
| "step p RecognitionOnStart s = (if recognition s = None then s else onstart s)"
| "step p (RecognitionOnResult t) s = (if recognition s = None then s else onresult t s)"
| "step p (RecognitionOnError e) s = (if recognition s = None then s else onerror e s)"
| "step p RecognitionOnEnd s =
     (if recognition s = None then s else onend (s\<lparr>sessionStarted := False\<rparr>))"
| "step p TimerExpires s = timerExpires p s"

definition run :: "platform \<Rightarrow> event list \<Rightarrow> state" where
  "run p evs = foldl (\<lambda>s e. step p e s) (mount p) evs"

section \<open>Auxiliary facts\<close>

declare numberToString.simps [simp del]

lemmas char_defs =
  js_def isWhiteSpace_def uriUnreserved_def isLeadingSurrogate_def isTrailingSurrogate_def
  surrogatePairToCodePoint_def utf8Octets_def hexDigit_def percentOctet_def percentEscape_def

lemmas handler_defs =
  emit_def setSearchQuery_def setIsListening_def setSearchResults_def setIsLoading_def
  setRecognition_def toast_def

lemma js_append: "js (a @ b) = js a @ js b"
  by (simp add: js_def)

lemma unreserved_not_surrogate:
  "uriUnreserved c \<Longrightarrow> \<not> isTrailingSurrogate c \<and> \<not> isLeadingSurrogate c"
  unfolding uriUnreserved_def isTrailingSurrogate_def isLeadingSurrogate_def
  by (auto simp: word_le_nat_alt)

lemma whiteSpace_not_surrogate:
  "isWhiteSpace c \<Longrightarrow> \<not> isTrailingSurrogate c \<and> \<not> isLeadingSurrogate c \<and> \<not> uriUnreserved c"
  unfolding isWhiteSpace_def uriUnreserved_def isTrailingSurrogate_def isLeadingSurrogate_def
  by (auto simp: word_le_nat_alt)

lemma encode_defined_iff: "(\<exists>e. encodeURIComponent q = Inr e) = isWellFormed q"
proof (induction q rule: isWellFormed.induct)
  case 1
  show ?case by simp
next
  case (2 c cs)
  show ?case
  proof (cases "uriUnreserved c")
    case True
    with unreserved_not_surrogate [of c] 2 show ?thesis
      by (cases "encodeURIComponent cs") auto
  next
    case False
    show ?thesis
    proof (cases "isTrailingSurrogate c")
      case True
      with False show ?thesis by simp
    next
      case nt: False
      show ?thesis
      proof (cases "isLeadingSurrogate c")
        case True
        show ?thesis
        proof (cases cs)
          case Nil
          with True nt False show ?thesis by simp
        next
          case (Cons d ds)
          with True nt False 2(1) [of d ds] show ?thesis
            by (cases "encodeURIComponent ds") auto
        qed
      next
        case nl: False
        with nt False 2(2) show ?thesis
          by (cases "encodeURIComponent cs") auto
      qed
    qed
  qed
qed

lemma trim_Nil_iff: "(trim q = []) = (\<forall>c\<in>set q. isWhiteSpace c)"
proof
  assume "trim q = []"
  then have "\<forall>x\<in>set (dropWhile isWhiteSpace q). isWhiteSpace x"
    by (simp add: trim_def dropWhile_eq_Nil_conv)
  then have "dropWhile isWhiteSpace q = []"
    using hd_dropWhile [of isWhiteSpace q] by (cases "dropWhile isWhiteSpace q") auto
  then show "\<forall>c\<in>set q. isWhiteSpace c"
    by (simp add: dropWhile_eq_Nil_conv)
next
  assume "\<forall>c\<in>set q. isWhiteSpace c"
  then show "trim q = []"
    unfolding trim_def by (auto dest: set_dropWhileD)
qed

lemma replaceWhiteSpace_no_space:
  "\<forall>c\<in>set q. \<not> isWhiteSpace c \<Longrightarrow> replaceWhiteSpace q = q"
  by (induction q) auto

lemma underscore_not_whiteSpace: "\<not> isWhiteSpace 0x5F"
  by (simp add: isWhiteSpace_def)

lemma replaceWhiteSpace_clean: "c \<in> set (replaceWhiteSpace q) \<Longrightarrow> \<not> isWhiteSpace c"
proof (induction q rule: replaceWhiteSpace.induct)
  case 1
  then show ?case by simp
next
  case (2 d ds)
  show ?case
  proof (cases "isWhiteSpace d")
    case True
    with 2(3) have "c = 0x5F \<or> c \<in> set (replaceWhiteSpace (dropWhile isWhiteSpace ds))"
      by simp
    with 2(1) [OF True] underscore_not_whiteSpace show ?thesis by blast
  next
    case False
    with 2(3) have "c = d \<or> c \<in> set (replaceWhiteSpace ds)"
      by simp
    with 2(2) [OF False] False show ?thesis by blast
  qed
qed

lemmas recognition_defs =
  onstart_def onresult_def onerror_def onend_def recognition_start_def
  startVoiceRecognition_def stopVoiceRecognition_def

lemmas view_defs = onSearchSubmit_def handleResultClick_def readResults_def

lemma generateSearchResults_length: "generateSearchResults q = Inr rs \<Longrightarrow> length rs = 6"
  by (auto simp: generateSearchResults_def split: sum.splits)

lemma generateSearchResults_ids:
  "generateSearchResults q = Inr rs \<Longrightarrow>
   map id' rs = [js ''1'', js ''2'', js ''3'', js ''4'', js ''5'', js ''6'']"
  by (auto simp: generateSearchResults_def split: sum.splits)

lemma generateSearchResults_defined:
  "isWellFormed q \<Longrightarrow> \<exists>rs. generateSearchResults q = Inr rs"
  using encode_defined_iff [of q] by (auto simp: generateSearchResults_def)

lemma resume_results:
  "map_sum id searchResults (handleSearch_resume p q s) = generateSearchResults q"
  by (cases "generateSearchResults q")
     (simp_all add: handleSearch_resume_def speakResult_def handler_defs)

text \<open>Without a recognition instance no event creates one or starts listening.\<close>

lemma handleSearch_frame:
  "recognition (handleSearch q s) = recognition s \<and> isListening (handleSearch q s) = isListening s"
  by (simp add: handleSearch_def handler_defs)

lemma speakResult_frame:
  "recognition (speakResult p t s) = recognition s \<and> isListening (speakResult p t s) = isListening s"
  by (simp add: speakResult_def handler_defs)

lemma timerExpires_frame:
  "recognition (timerExpires p s) = recognition s \<and> isListening (timerExpires p s) = isListening s"
  by (simp add: timerExpires_def handleSearch_resume_def speakResult_frame handler_defs
      split: list.splits sum.splits)

lemma step_unsupported:
  assumes "recognition s = None" and "\<not> isListening s"
  shows "recognition (step p e s) = None \<and> \<not> isListening (step p e s)"
proof (cases e)
  case TimerExpires
  with assms timerExpires_frame [of p s] show ?thesis by simp
next
  case (QuickPick t)
  with assms handleSearch_frame [of "topicQuery t" s] show ?thesis by simp
next
  case Submit
  with assms handleSearch_frame [of "searchQuery s" s] show ?thesis
    by (simp add: onSearchSubmit_def)
qed (use assms in \<open>simp_all add: recognition_defs view_defs speakResult_frame handler_defs\<close>)

lemma steps_unsupported:
  "recognition s = None \<Longrightarrow> \<not> isListening s \<Longrightarrow>
   recognition (foldl (\<lambda>s e. step p e s) s evs) = None
   \<and> \<not> isListening (foldl (\<lambda>s e. step p e s) s evs)"
proof (induction evs arbitrary: s)
  case Nil
  then show ?case by simp
next
  case (Cons e evs)
  from step_unsupported [OF Cons.prems, of p e] Cons.IH [of "step p e s"]
  show ?case by simp
qed

lemma numberToString_6: "numberToString 6 = js ''6''"
  by (simp add: numberToString.simps js_def)

lemma handleSearch_nonblank:
  "trim query \<noteq> [] \<Longrightarrow>
   handleSearch query s =
     s\<lparr>isLoading := True, pending := pending s @ [query],
       trace := trace s @ [SetIsLoading True, SetTimeout 1000]\<rparr>"
  by (simp add: handleSearch_def handler_defs)

lemma summary_text:
  "js ''Found '' @ numberToString 6 @ js '' learning resources for '' @ rest
   = js ''Found 6 learning resources for '' @ rest"
  by (simp add: numberToString_6 js_def)

lemma handleSearch_resume_Inr:
  "generateSearchResults query = Inr results \<Longrightarrow>
   handleSearch_resume p query s =
     Inr (speakResult p
            (js ''Found 6 learning resources for '' @ query
               @ js ''. Click any result to start learning!'')
            (s\<lparr>searchResults := results, isLoading := False,
               trace := trace s @ [SetSearchResults results, SetIsLoading False]\<rparr>))"
  using generateSearchResults_length [of query results]
  by (simp add: handleSearch_resume_def handler_defs summary_text)

lemma handleSearch_resume_Inl:
  "generateSearchResults query = Inl e \<Longrightarrow> handleSearch_resume p query s = Inl e"
  by (simp add: handleSearch_resume_def)

lemma encode_leading_whiteSpace:
  "isWhiteSpace w \<Longrightarrow>
   encodeURIComponent (w # r) = map_sum id ((@) (percentEscape (unat w))) (encodeURIComponent r)"
  using whiteSpace_not_surrogate [of w] by simp

lemma encode_trailing_whiteSpace:
  "isWhiteSpace w \<Longrightarrow>
   encodeURIComponent (r @ [w]) =
     map_sum id (\<lambda>e. e @ percentEscape (unat w)) (encodeURIComponent r)"
proof (induction r rule: encodeURIComponent.induct)
  case 1
  with whiteSpace_not_surrogate [of w] show ?case by simp
next
  case (2 c cs)
  show ?case
  proof (cases cs)
    case Nil
    with 2 whiteSpace_not_surrogate [of w] show ?thesis
      by (simp add: sum.map_comp comp_def)
  next
    case (Cons d ds)
    with 2 whiteSpace_not_surrogate [of w] show ?thesis
      by (simp add: sum.map_comp comp_def)
  qed
qed

lemma replace_leading_whiteSpace:
  "isWhiteSpace w \<Longrightarrow>
   replaceWhiteSpace (w # r) = 0x5F # replaceWhiteSpace (dropWhile isWhiteSpace r)"
  by simp

lemma replace_trailing_whiteSpace:
  "isWhiteSpace w \<Longrightarrow> \<exists>u. replaceWhiteSpace (r @ [w]) = u @ [0x5F]"
proof (induction r rule: replaceWhiteSpace.induct)
  case 1
  then show ?case by simp
next
  case (2 c cs)
  show ?case
  proof (cases "isWhiteSpace c")
    case True
    show ?thesis
    proof (cases "\<forall>x\<in>set cs. isWhiteSpace x")
      case all: True
      with True 2(3) have "dropWhile isWhiteSpace (cs @ [w]) = []" by simp
      with True show ?thesis by simp
    next
      case False
      then have "dropWhile isWhiteSpace (cs @ [w]) = dropWhile isWhiteSpace cs @ [w]"
        by (auto simp: dropWhile_append1)
      with True 2(1) [OF True 2(3)] show ?thesis by auto
    qed
  next
    case False
    with 2(2) [OF False 2(3)] show ?thesis by auto
  qed
qed

lemma trim_leading_whiteSpace: "isWhiteSpace w \<Longrightarrow> trim (w # r) \<noteq> w # r"
proof -
  assume w: "isWhiteSpace w"
  have "length (dropWhile isWhiteSpace (rev (dropWhile isWhiteSpace r)))
          \<le> length (rev (dropWhile isWhiteSpace r))"
    by (rule length_dropWhile_le)
  also have "\<dots> \<le> length r" by (simp add: length_dropWhile_le)
  finally have "length (trim (w # r)) < length (w # r)"
    using w by (simp add: trim_def)
  then show ?thesis by auto
qed

lemma trim_trailing_whiteSpace: "isWhiteSpace w \<Longrightarrow> trim (r @ [w]) \<noteq> r @ [w]"
proof -
  assume w: "isWhiteSpace w"
  have "length (trim (r @ [w])) < length (r @ [w])"
  proof (cases "\<forall>x\<in>set r. isWhiteSpace x")
    case True
    with w have "dropWhile isWhiteSpace (r @ [w]) = []" by simp
    then show ?thesis by (simp add: trim_def)
  next
    case False
    then have "dropWhile isWhiteSpace (r @ [w]) = dropWhile isWhiteSpace r @ [w]"
      by (auto simp: dropWhile_append1)
    with w have "trim (r @ [w]) = rev (dropWhile isWhiteSpace (rev (dropWhile isWhiteSpace r)))"
      by (simp add: trim_def)
    moreover have "length (dropWhile isWhiteSpace (rev (dropWhile isWhiteSpace r)))
          \<le> length (rev (dropWhile isWhiteSpace r))"
      by (rule length_dropWhile_le)
    moreover have "length (rev (dropWhile isWhiteSpace r)) \<le> length r"
      by (simp add: length_dropWhile_le)
    ultimately show ?thesis by simp
  qed
  then show ?thesis by auto
qed

lemma percentEscape_space: "percentEscape 0x20 = js ''%20''"
  by (simp add: char_defs)

lemma generateSearchResults_texts:
  "encodeURIComponent query = Inr e \<Longrightarrow>
   \<exists>rs. generateSearchResults query = Inr rs
     \<and> map title rs =
         [query @ js '' - Wikipedia'', query @ js '' - YouTube Tutorials'',
          query @ js '' - Khan Academy'', query @ js '' - Coursera Courses'',
          query @ js '' - Reddit Discussions'', query @ js '' - Google Scholar'']
     \<and> map description rs =
         [js ''Learn comprehensive information about '' @ query @ js '' on Wikipedia'',
          js ''Watch educational videos about '' @ query,
          js ''Free online courses and lessons about '' @ query,
          js ''Professional courses and certifications related to '' @ query,
          js ''Community discussions and real experiences about '' @ query,
          js ''Academic research and scholarly articles about '' @ query]
     \<and> (\<forall>r\<in>set rs. \<exists>before after. snippet r = before @ query @ after)
     \<and> map url rs =
         [js ''https://en.wikipedia.org/wiki/'' @ replaceWhiteSpace query,
          js ''https://www.youtube.com/results?search_query='' @ e @ js ''+tutorial'',
          js ''https://www.khanacademy.org/search?page_search_query='' @ e,
          js ''https://www.coursera.org/search?query='' @ e,
          js ''https://www.reddit.com/search/?q='' @ e,
          js ''https://scholar.google.com/scholar?q='' @ e]"
  by (simp add: generateSearchResults_def) blast

section \<open>Claims\<close>

text \<open>
  C1 (as amended). For every non-empty query \<open>Q\<close> that is well-formed UTF-16,
  \<open>generateSearchResults\<close> returns exactly six results with the ids 1 to 6 in the fixed
  order encyclopedia, video tutorials, the two course sites, community discussion,
  academic search. The URLs of the last five contain \<open>encodeURIComponent(Q)\<close>; the
  encyclopedia URL contains \<open>Q\<close> itself, not percent-encoded, with every run of white
  space replaced by one underscore: no white space is left in it, and a query without
  white space appears in it unchanged.
\<close>

theorem generateSearchResults_six:
  assumes "Q \<noteq> []" and "isWellFormed Q"
  shows "\<exists>e rs. encodeURIComponent Q = Inr e \<and> generateSearchResults Q = Inr rs
     \<and> length rs = 6
     \<and> map id' rs = [js ''1'', js ''2'', js ''3'', js ''4'', js ''5'', js ''6'']
     \<and> map url rs =
         [js ''https://en.wikipedia.org/wiki/'' @ replaceWhiteSpace Q,
          js ''https://www.youtube.com/results?search_query='' @ e @ js ''+tutorial'',
          js ''https://www.khanacademy.org/search?page_search_query='' @ e,
          js ''https://www.coursera.org/search?query='' @ e,
          js ''https://www.reddit.com/search/?q='' @ e,
          js ''https://scholar.google.com/scholar?q='' @ e]
     \<and> (\<forall>c\<in>set (replaceWhiteSpace Q). \<not> isWhiteSpace c)
     \<and> ((\<forall>c\<in>set Q. \<not> isWhiteSpace c) \<longrightarrow> replaceWhiteSpace Q = Q)"
proof -
  from assms(2) obtain e where e: "encodeURIComponent Q = Inr e"
    using encode_defined_iff [of Q] by auto
  have clean: "\<forall>c\<in>set (replaceWhiteSpace Q). \<not> isWhiteSpace c"
    using replaceWhiteSpace_clean by blast
  have same: "(\<forall>c\<in>set Q. \<not> isWhiteSpace c) \<longrightarrow> replaceWhiteSpace Q = Q"
    using replaceWhiteSpace_no_space by blast
  have "\<exists>rs. generateSearchResults Q = Inr rs
     \<and> length rs = 6
     \<and> map id' rs = [js ''1'', js ''2'', js ''3'', js ''4'', js ''5'', js ''6'']
     \<and> map url rs =
         [js ''https://en.wikipedia.org/wiki/'' @ replaceWhiteSpace Q,
          js ''https://www.youtube.com/results?search_query='' @ e @ js ''+tutorial'',
          js ''https://www.khanacademy.org/search?page_search_query='' @ e,
          js ''https://www.coursera.org/search?query='' @ e,
          js ''https://www.reddit.com/search/?q='' @ e,
          js ''https://scholar.google.com/scholar?q='' @ e]"
    by (simp add: e generateSearchResults_def)
  then obtain rs where rs: "generateSearchResults Q = Inr rs" "length rs = 6"
      "map id' rs = [js ''1'', js ''2'', js ''3'', js ''4'', js ''5'', js ''6'']"
      "map url rs =
         [js ''https://en.wikipedia.org/wiki/'' @ replaceWhiteSpace Q,
          js ''https://www.youtube.com/results?search_query='' @ e @ js ''+tutorial'',
          js ''https://www.khanacademy.org/search?page_search_query='' @ e,
          js ''https://www.coursera.org/search?query='' @ e,
          js ''https://www.reddit.com/search/?q='' @ e,
          js ''https://scholar.google.com/scholar?q='' @ e]"
    by (elim exE conjE)
  from e rs clean same show ?thesis
    by (intro exI [of _ e] exI [of _ rs] conjI)
qed

theorem generateSearchResults_six_witness:
  "js ''c# & java'' \<noteq> [] \<and> isWellFormed (js ''c# & java'')
   \<and> (\<exists>rs. generateSearchResults (js ''c# & java'') = Inr rs \<and> length rs = 6
        \<and> map url rs =
         [js ''https://en.wikipedia.org/wiki/c#_&_java'',
          js ''https://www.youtube.com/results?search_query=c%23%20%26%20java+tutorial'',
          js ''https://www.khanacademy.org/search?page_search_query=c%23%20%26%20java'',
          js ''https://www.coursera.org/search?query=c%23%20%26%20java'',
          js ''https://www.reddit.com/search/?q=c%23%20%26%20java'',
          js ''https://scholar.google.com/scholar?q=c%23%20%26%20java''])"
proof -
  have ne: "js ''c# & java'' \<noteq> []" by (simp add: js_def)
  have wf: "isWellFormed (js ''c# & java'')" by (simp add: char_defs)
  have enc: "encodeURIComponent (js ''c# & java'') = Inr (js ''c%23%20%26%20java'')"
    by (simp add: char_defs)
  have rep: "replaceWhiteSpace (js ''c# & java'') = js ''c#_&_java''"
    by (simp add: char_defs)
  from generateSearchResults_six [OF ne wf] obtain e rs where
    r: "encodeURIComponent (js ''c# & java'') = Inr e"
       "generateSearchResults (js ''c# & java'') = Inr rs" "length rs = 6"
       "map url rs =
         [js ''https://en.wikipedia.org/wiki/'' @ replaceWhiteSpace (js ''c# & java''),
          js ''https://www.youtube.com/results?search_query='' @ e @ js ''+tutorial'',
          js ''https://www.khanacademy.org/search?page_search_query='' @ e,
          js ''https://www.coursera.org/search?query='' @ e,
          js ''https://www.reddit.com/search/?q='' @ e,
          js ''https://scholar.google.com/scholar?q='' @ e]"
    by (elim exE conjE)
  from r(1) enc have e: "e = js ''c%23%20%26%20java''" by simp
  have "map url rs =
         [js ''https://en.wikipedia.org/wiki/c#_&_java'',
          js ''https://www.youtube.com/results?search_query=c%23%20%26%20java+tutorial'',
          js ''https://www.khanacademy.org/search?page_search_query=c%23%20%26%20java'',
          js ''https://www.coursera.org/search?query=c%23%20%26%20java'',
          js ''https://www.reddit.com/search/?q=c%23%20%26%20java'',
          js ''https://scholar.google.com/scholar?q=c%23%20%26%20java'']"
    unfolding r(4) rep e by (simp add: js_append [symmetric])
  with ne wf r(2,3) show ?thesis by (intro conjI exI [of _ rs])
qed

text \<open>
  A query holding an unpaired surrogate is a non-empty string for which the synthesizer
  returns nothing: \<open>encodeURIComponent\<close> throws.
\<close>

theorem generateSearchResults_lone_surrogate:
  "generateSearchResults [0xD800] = Inl URIError"
  by (simp add: generateSearchResults_def char_defs)

text \<open>
  C2. For every query that is empty or consists of white space only, \<open>handleSearch\<close>
  returns the state it was given: no setter is called, no timer is set, and the trace
  gains neither a notice nor an utterance.
\<close>

theorem handleSearch_blank_noop:
  "\<forall>c\<in>set query. isWhiteSpace c \<Longrightarrow> handleSearch query s = s"
  by (simp add: handleSearch_def trim_Nil_iff)

theorem handleSearch_blank_noop_witness:
  "isWhiteSpace 0x20 \<and> isWhiteSpace 0x09 \<and> isWhiteSpace 0xA0
   \<and> handleSearch [0x20, 0x09, 0xA0]
         (mount \<lparr>hasSpeechRecognition = True, hasSpeechSynthesis = True\<rparr>)
       = mount \<lparr>hasSpeechRecognition = True, hasSpeechSynthesis = True\<rparr>"
proof -
  have ws: "\<forall>c\<in>set [0x20, 0x09, 0xA0]. isWhiteSpace c"
    by (simp add: isWhiteSpace_def)
  from handleSearch_blank_noop [OF ws] ws show ?thesis by simp
qed

text \<open>
  C3 (as amended). For every query with content other than white space that is
  well-formed UTF-16, \<open>handleSearch\<close> sets \<open>isLoading\<close> to true and sets the timer of
  1000 ms; when the timer expires it calls the synthesizer, replaces the results by the
  six synthesized ones, sets \<open>isLoading\<close> to false and then calls \<open>speakResult\<close> with
  "Found 6 learning resources for <query>. Click any result to start learning!".
\<close>

theorem handleSearch_sequence:
  assumes "trim query \<noteq> []" and "isWellFormed query"
  shows "\<exists>results. generateSearchResults query = Inr results \<and> length results = 6
     \<and> handleSearch query s =
         s\<lparr>isLoading := True, pending := pending s @ [query],
           trace := trace s @ [SetIsLoading True, SetTimeout 1000]\<rparr>
     \<and> (pending s = [] \<longrightarrow>
          timerExpires p (handleSearch query s) =
            speakResult p
              (js ''Found 6 learning resources for '' @ query
                 @ js ''. Click any result to start learning!'')
              (s\<lparr>pending := [], searchResults := results, isLoading := False,
                 trace := trace s @ [SetIsLoading True, SetTimeout 1000,
                                     SetSearchResults results, SetIsLoading False]\<rparr>))"
proof -
  from assms(2) obtain results where r: "generateSearchResults query = Inr results"
    using generateSearchResults_defined by blast
  have "pending s = [] \<Longrightarrow>
          timerExpires p (handleSearch query s) =
            speakResult p
              (js ''Found 6 learning resources for '' @ query
                 @ js ''. Click any result to start learning!'')
              (s\<lparr>pending := [], searchResults := results, isLoading := False,
                 trace := trace s @ [SetIsLoading True, SetTimeout 1000,
                                     SetSearchResults results, SetIsLoading False]\<rparr>)"
    by (simp add: timerExpires_def handleSearch_nonblank [OF assms(1)]
        handleSearch_resume_Inr [OF r])
  with r generateSearchResults_length [OF r] handleSearch_nonblank [OF assms(1), of s]
  show ?thesis by (intro exI [of _ results] conjI impI)
qed

theorem handleSearch_sequence_witness:
  "trim (js ''cooking'') \<noteq> [] \<and> isWellFormed (js ''cooking'')
   \<and> pending initialState = []
   \<and> (\<exists>results. generateSearchResults (js ''cooking'') = Inr results \<and> length results = 6
        \<and> timerExpires \<lparr>hasSpeechRecognition = True, hasSpeechSynthesis = True\<rparr>
             (handleSearch (js ''cooking'') initialState) =
           initialState\<lparr>searchResults := results, isLoading := False,
             trace := [SetIsLoading True, SetTimeout 1000,
                       SetSearchResults results, SetIsLoading False,
                       Speak \<lparr>utterance_text =
                                js ''Found 6 learning resources for cooking. Click any result to start learning!'',
                              rate = 0.8, pitch = 1, volume = 0.8\<rparr>]\<rparr>)"
proof -
  have nb: "trim (js ''cooking'') \<noteq> []"
    by (simp add: trim_def char_defs)
  have wf: "isWellFormed (js ''cooking'')"
    by (simp add: char_defs)
  have pe: "pending initialState = []"
    by (simp add: initialState_def)
  have tx: "js ''Found 6 learning resources for '' @ js ''cooking''
              @ js ''. Click any result to start learning!''
            = js ''Found 6 learning resources for cooking. Click any result to start learning!''"
    by (simp add: js_def)
  from handleSearch_sequence [OF nb wf, of initialState
        "\<lparr>hasSpeechRecognition = True, hasSpeechSynthesis = True\<rparr>"]
  obtain results where
    r: "generateSearchResults (js ''cooking'') = Inr results" "length results = 6"
    and t: "pending initialState = [] \<longrightarrow>
      timerExpires \<lparr>hasSpeechRecognition = True, hasSpeechSynthesis = True\<rparr>
        (handleSearch (js ''cooking'') initialState) =
      speakResult \<lparr>hasSpeechRecognition = True, hasSpeechSynthesis = True\<rparr>
        (js ''Found 6 learning resources for '' @ js ''cooking''
           @ js ''. Click any result to start learning!'')
        (initialState\<lparr>pending := [], searchResults := results, isLoading := False,
           trace := trace initialState @ [SetIsLoading True, SetTimeout 1000,
                               SetSearchResults results, SetIsLoading False]\<rparr>)"
    by (elim exE conjE)
  from t pe have "timerExpires \<lparr>hasSpeechRecognition = True, hasSpeechSynthesis = True\<rparr>
             (handleSearch (js ''cooking'') initialState) =
           initialState\<lparr>searchResults := results, isLoading := False,
             trace := [SetIsLoading True, SetTimeout 1000,
                       SetSearchResults results, SetIsLoading False,
                       Speak \<lparr>utterance_text =
                                js ''Found 6 learning resources for cooking. Click any result to start learning!'',
                              rate = 0.8, pitch = 1, volume = 0.8\<rparr>]\<rparr>"
    unfolding tx by (simp add: speakResult_def emit_def initialState_def)
  with nb wf pe r show ?thesis by (intro conjI exI [of _ results])
qed

text \<open>
  The query "a" followed by an unpaired surrogate has content other than white space,
  but its search stops at the synthesizer: \<open>isLoading\<close> stays true, the results are not
  replaced and nothing is spoken.
\<close>

theorem handleSearch_lone_surrogate_stuck:
  "trim [0x61, 0xD800] \<noteq> []
   \<and> timerExpires \<lparr>hasSpeechRecognition = True, hasSpeechSynthesis = True\<rparr>
        (handleSearch [0x61, 0xD800] initialState) =
      initialState\<lparr>isLoading := True, trace := [SetIsLoading True, SetTimeout 1000]\<rparr>"
proof -
  have nb: "trim [0x61, 0xD800] \<noteq> []"
    by (simp add: trim_def char_defs)
  have "generateSearchResults [0x61, 0xD800] = Inl URIError"
    by (simp add: generateSearchResults_def char_defs)
  with nb show ?thesis
    by (simp add: timerExpires_def handleSearch_nonblank handleSearch_resume_Inl
        initialState_def)
qed

text \<open>
  C4 (as amended). The result handler of the recognition instance stores the transcript
  as the query and calls \<open>handleSearch\<close> with it at once, which starts the search of a
  transcript that is not blank; it leaves \<open>isListening\<close> as it was. The end handler,
  which the platform calls when the session ends, sets \<open>isListening\<close> to false.
\<close>

theorem onresult_search_onend_idle:
  "isListening (onresult transcript s) = isListening s
   \<and> searchQuery (onresult transcript s) = transcript
   \<and> onresult transcript s = handleSearch transcript (setSearchQuery transcript s)
   \<and> (trim transcript \<noteq> [] \<longrightarrow>
        isLoading (onresult transcript s)
        \<and> pending (onresult transcript s) = pending s @ [transcript]
        \<and> trace (onresult transcript s) =
            trace s @ [SetSearchQuery transcript, SetIsLoading True, SetTimeout 1000])
   \<and> isListening (onend (onresult transcript s)) = False"
  by (simp add: onresult_def onend_def handleSearch_def handler_defs)

theorem onresult_search_onend_idle_witness:
  "trim (js ''cooking'') \<noteq> []
   \<and> isListening (onresult (js ''cooking'') (onstart initialState)) = True
   \<and> searchQuery (onresult (js ''cooking'') (onstart initialState)) = js ''cooking''
   \<and> pending (onresult (js ''cooking'') (onstart initialState)) = [js ''cooking'']
   \<and> isListening (onend (onresult (js ''cooking'') (onstart initialState))) = False"
proof -
  have nb: "trim (js ''cooking'') \<noteq> []"
    by (simp add: trim_def char_defs)
  have l: "isListening (onstart initialState) = True" "pending (onstart initialState) = []"
    by (simp_all add: onstart_def initialState_def handler_defs)
  note t = onresult_search_onend_idle [of "js ''cooking''" "onstart initialState"]
  note a = t [THEN conjunct1]
  note b = t [THEN conjunct2, THEN conjunct1]
  note c = t [THEN conjunct2, THEN conjunct2, THEN conjunct2, THEN conjunct1, rule_format, OF nb]
  note d = t [THEN conjunct2, THEN conjunct2, THEN conjunct2, THEN conjunct2]
  from nb a b c [THEN conjunct2, THEN conjunct1] d l show ?thesis by simp
qed

text \<open>
  After the microphone button, the start event and a transcript, the component is still
  listening: the result handler alone does not leave the listening state.
\<close>

theorem onresult_still_listening:
  "isListening
     (run \<lparr>hasSpeechRecognition = True, hasSpeechSynthesis = True\<rparr>
        [MicClick, RecognitionOnStart, RecognitionOnResult (js ''cooking'')]) = True"
  by (simp add: run_def mount_def initialState_def recognition_defs handleSearch_def
      handler_defs)

text \<open>
  C5. The error handler of the recognition instance sets \<open>isListening\<close> to false and
  emits the destructive notice "Voice Recognition Error"; the query, the results, the
  loading flag and the suspended searches stay as they were.
\<close>

theorem onerror_keeps_search_state:
  "isListening (onerror err s) = False
   \<and> searchQuery (onerror err s) = searchQuery s
   \<and> searchResults (onerror err s) = searchResults s
   \<and> isLoading (onerror err s) = isLoading s
   \<and> pending (onerror err s) = pending s
   \<and> trace (onerror err s) =
       trace s @
       [ConsoleError (js ''Speech recognition error:'') err,
        SetIsListening False,
        Toast \<lparr>toast_title = js ''Voice Recognition Error'',
               toast_description = js ''Please try again or use text input'',
               toast_variant = Some destructive\<rparr>]"
  by (simp add: onerror_def handler_defs)

text \<open>
  C6. On a platform without speech recognition no instance is ever created, whatever
  events follow the mount. Every attempt to start recognition then returns normally,
  adds the notice "Voice Recognition Not Supported" to the trace and changes nothing
  else; \<open>isListening\<close> stays false.
\<close>

theorem unsupported_start_notice:
  assumes "\<not> hasSpeechRecognition p"
  shows "recognition (run p evs) = None
   \<and> startVoiceRecognition (run p evs) =
       Inr ((run p evs)\<lparr>trace := trace (run p evs) @
         [Toast \<lparr>toast_title = js ''Voice Recognition Not Supported'',
                 toast_description = js ''Your browser doesn't support voice recognition'',
                 toast_variant = Some destructive\<rparr>]\<rparr>)
   \<and> step p MicClick (run p evs) =
       (run p evs)\<lparr>trace := trace (run p evs) @
         [Toast \<lparr>toast_title = js ''Voice Recognition Not Supported'',
                 toast_description = js ''Your browser doesn't support voice recognition'',
                 toast_variant = Some destructive\<rparr>]\<rparr>
   \<and> isListening (step p MicClick (run p evs)) = False"
proof -
  from assms have "recognition (mount p) = None" "\<not> isListening (mount p)"
    by (simp_all add: mount_def initialState_def handler_defs)
  from steps_unsupported [OF this, of p evs]
  have inv: "recognition (run p evs) = None" "\<not> isListening (run p evs)"
    by (simp_all add: run_def)
  then show ?thesis
    by (simp add: startVoiceRecognition_def handler_defs)
qed

theorem unsupported_start_notice_witness:
  "\<not> hasSpeechRecognition \<lparr>hasSpeechRecognition = False, hasSpeechSynthesis = True\<rparr>
   \<and> trace (step \<lparr>hasSpeechRecognition = False, hasSpeechSynthesis = True\<rparr> MicClick
        (run \<lparr>hasSpeechRecognition = False, hasSpeechSynthesis = True\<rparr> [MicClick])) =
      [ConsoleWarn (js ''Speech recognition not supported''),
       Toast \<lparr>toast_title = js ''Voice Recognition Not Supported'',
               toast_description = js ''Your browser doesn't support voice recognition'',
               toast_variant = Some destructive\<rparr>,
       Toast \<lparr>toast_title = js ''Voice Recognition Not Supported'',
               toast_description = js ''Your browser doesn't support voice recognition'',
               toast_variant = Some destructive\<rparr>]
   \<and> isListening (step \<lparr>hasSpeechRecognition = False, hasSpeechSynthesis = True\<rparr> MicClick
        (run \<lparr>hasSpeechRecognition = False, hasSpeechSynthesis = True\<rparr> [MicClick])) = False"
proof -
  have h: "\<not> hasSpeechRecognition \<lparr>hasSpeechRecognition = False, hasSpeechSynthesis = True\<rparr>"
    by simp
  have "trace (run \<lparr>hasSpeechRecognition = False, hasSpeechSynthesis = True\<rparr> [MicClick]) =
      [ConsoleWarn (js ''Speech recognition not supported''),
       Toast \<lparr>toast_title = js ''Voice Recognition Not Supported'',
               toast_description = js ''Your browser doesn't support voice recognition'',
               toast_variant = Some destructive\<rparr>]"
    by (simp add: run_def mount_def initialState_def startVoiceRecognition_def handler_defs)
  note tr = this
  note t = unsupported_start_notice [OF h, of "[MicClick]"]
  note eq = t [THEN conjunct2, THEN conjunct2, THEN conjunct1]
  note li = t [THEN conjunct2, THEN conjunct2, THEN conjunct2]
  have "trace (step \<lparr>hasSpeechRecognition = False, hasSpeechSynthesis = True\<rparr> MicClick
        (run \<lparr>hasSpeechRecognition = False, hasSpeechSynthesis = True\<rparr> [MicClick])) =
      trace (run \<lparr>hasSpeechRecognition = False, hasSpeechSynthesis = True\<rparr> [MicClick]) @
      [Toast \<lparr>toast_title = js ''Voice Recognition Not Supported'',
               toast_description = js ''Your browser doesn't support voice recognition'',
               toast_variant = Some destructive\<rparr>]"
    unfolding eq by simp
  with tr h li show ?thesis by simp
qed

text \<open>
  C7. With speech synthesis present, \<open>speakResult\<close> speaks one utterance of the given
  text with rate 0.8 (below the default), the default pitch and volume 0.8 (below the
  default), and does nothing else. Without it, \<open>speakResult\<close> returns the state it was
  given.
\<close>

theorem speakResult_profile:
  "(hasSpeechSynthesis p \<longrightarrow>
      (\<exists>u. speakResult p text s = s\<lparr>trace := trace s @ [Speak u]\<rparr>
         \<and> utterance_text u = text
         \<and> rate u = 0.8 \<and> rate u < defaultRate
         \<and> pitch u = defaultPitch
         \<and> volume u = 0.8 \<and> volume u < defaultVolume))
   \<and> (\<not> hasSpeechSynthesis p \<longrightarrow> speakResult p text s = s)"
proof (cases "hasSpeechSynthesis p")
  case True
  have "speakResult p text s =
      s\<lparr>trace := trace s @
        [Speak \<lparr>utterance_text = text, rate = 0.8, pitch = 1, volume = 0.8\<rparr>]\<rparr>"
    using True by (simp add: speakResult_def emit_def)
  with True show ?thesis
    by (intro conjI impI exI [of _ "\<lparr>utterance_text = text, rate = 0.8, pitch = 1, volume = 0.8\<rparr>"])
       (simp_all add: defaultRate_def defaultPitch_def defaultVolume_def)
next
  case False
  then show ?thesis by (simp add: speakResult_def)
qed

theorem speakResult_profile_witness:
  "(\<exists>u. speakResult \<lparr>hasSpeechRecognition = True, hasSpeechSynthesis = True\<rparr> (js ''hello'')
           initialState = initialState\<lparr>trace := [Speak u]\<rparr>
       \<and> utterance_text u = js ''hello'' \<and> rate u < defaultRate \<and> pitch u = defaultPitch
       \<and> volume u < defaultVolume)
   \<and> speakResult \<lparr>hasSpeechRecognition = True, hasSpeechSynthesis = False\<rparr> (js ''hello'')
        initialState = initialState"
  using speakResult_profile
          [of "\<lparr>hasSpeechRecognition = True, hasSpeechSynthesis = True\<rparr>" "js ''hello''" initialState]
        speakResult_profile
          [of "\<lparr>hasSpeechRecognition = True, hasSpeechSynthesis = False\<rparr>" "js ''hello''" initialState]
  by (auto simp: initialState_def)

text \<open>
  C8. What a completed search stores is \<open>generateSearchResults Q\<close> whatever the platform
  and the state in which it runs: two calls with the same \<open>Q\<close>, in any two contexts or
  one after the other, give the same results field for field, or fail alike; the ids
  are always 1 to 6.
\<close>

theorem generateSearchResults_pure:
  "map_sum id searchResults (handleSearch_resume p Q s) = generateSearchResults Q
   \<and> map_sum id searchResults (handleSearch_resume p' Q s') =
       map_sum id searchResults (handleSearch_resume p Q s)
   \<and> (\<forall>s1. handleSearch_resume p Q s = Inr s1 \<longrightarrow>
         (\<exists>s2. handleSearch_resume p' Q s1 = Inr s2 \<and> searchResults s2 = searchResults s1))
   \<and> (\<forall>rs. generateSearchResults Q = Inr rs \<longrightarrow>
         map id' rs = [js ''1'', js ''2'', js ''3'', js ''4'', js ''5'', js ''6''])"
proof -
  have "\<exists>s2. handleSearch_resume p' Q s1 = Inr s2 \<and> searchResults s2 = searchResults s1"
    if "handleSearch_resume p Q s = Inr s1" for s1
  proof -
    from that resume_results [of p Q s] have "generateSearchResults Q = Inr (searchResults s1)"
      by simp
    with resume_results [of p' Q s1] show ?thesis
      by (cases "handleSearch_resume p' Q s1") auto
  qed
  then show ?thesis
    by (simp add: resume_results generateSearchResults_ids)
qed

theorem generateSearchResults_pure_witness:
  "(\<exists>rs. generateSearchResults (js ''cooking'') = Inr rs
      \<and> map_sum id searchResults
          (handleSearch_resume \<lparr>hasSpeechRecognition = True, hasSpeechSynthesis = True\<rparr>
             (js ''cooking'') initialState) = Inr rs
      \<and> map_sum id searchResults
          (handleSearch_resume \<lparr>hasSpeechRecognition = False, hasSpeechSynthesis = False\<rparr>
             (js ''cooking'') (onstart initialState)) = Inr rs
      \<and> map id' rs = [js ''1'', js ''2'', js ''3'', js ''4'', js ''5'', js ''6''])"
proof -
  have "isWellFormed (js ''cooking'')" by (simp add: char_defs)
  then obtain rs where rs: "generateSearchResults (js ''cooking'') = Inr rs"
    using generateSearchResults_defined by blast
  note t = generateSearchResults_pure [of _ "js ''cooking''"]
  from t [of "\<lparr>hasSpeechRecognition = True, hasSpeechSynthesis = True\<rparr>" initialState] rs
  have a: "map_sum id searchResults
          (handleSearch_resume \<lparr>hasSpeechRecognition = True, hasSpeechSynthesis = True\<rparr>
             (js ''cooking'') initialState) = Inr rs"
    and i: "map id' rs = [js ''1'', js ''2'', js ''3'', js ''4'', js ''5'', js ''6'']"
    by simp_all
  from t [of "\<lparr>hasSpeechRecognition = False, hasSpeechSynthesis = False\<rparr>" "onstart initialState"] rs
  have b: "map_sum id searchResults
          (handleSearch_resume \<lparr>hasSpeechRecognition = False, hasSpeechSynthesis = False\<rparr>
             (js ''cooking'') (onstart initialState)) = Inr rs"
    by simp
  from rs a b i show ?thesis by (intro exI [of _ rs] conjI)
qed

text \<open>
  C9 (as amended). Two searches with well-formed queries that are not blank, the second
  dispatched while the first waits for its timer: both stay suspended, neither removes
  the other; the first timer to expire completes the first search, the second completes
  the second, whose results are the final ones. Both completions call
  \<open>setSearchResults\<close>, in that order, and whichever invocation resumes in whatever state
  writes its own output.
\<close>

theorem overlapping_searches_last_wins:
  assumes "trim q1 \<noteq> []" and "trim q2 \<noteq> []"
    and "isWellFormed q1" and "isWellFormed q2" and "pending s = []"
  shows "\<exists>r1 r2. generateSearchResults q1 = Inr r1 \<and> generateSearchResults q2 = Inr r2
     \<and> pending (handleSearch q2 (handleSearch q1 s)) = [q1, q2]
     \<and> searchResults (timerExpires p (handleSearch q2 (handleSearch q1 s))) = r1
     \<and> pending (timerExpires p (handleSearch q2 (handleSearch q1 s))) = [q2]
     \<and> searchResults (timerExpires p (timerExpires p (handleSearch q2 (handleSearch q1 s)))) = r2
     \<and> pending (timerExpires p (timerExpires p (handleSearch q2 (handleSearch q1 s)))) = []
     \<and> isLoading (timerExpires p (timerExpires p (handleSearch q2 (handleSearch q1 s)))) = False
     \<and> filter (\<lambda>a. case a of SetSearchResults r \<Rightarrow> True | _ \<Rightarrow> False)
          (trace (timerExpires p (timerExpires p (handleSearch q2 (handleSearch q1 s)))))
        = filter (\<lambda>a. case a of SetSearchResults r \<Rightarrow> True | _ \<Rightarrow> False) (trace s)
          @ [SetSearchResults r1, SetSearchResults r2]
     \<and> (\<forall>s'. map_sum id searchResults (handleSearch_resume p q1 s') = Inr r1)
     \<and> (\<forall>s'. map_sum id searchResults (handleSearch_resume p q2 s') = Inr r2)"
proof -
  from assms(3) obtain r1 where r1: "generateSearchResults q1 = Inr r1"
    using generateSearchResults_defined by blast
  from assms(4) obtain r2 where r2: "generateSearchResults q2 = Inr r2"
    using generateSearchResults_defined by blast
  have s2: "handleSearch q2 (handleSearch q1 s) =
      s\<lparr>isLoading := True, pending := [q1, q2],
        trace := trace s @ [SetIsLoading True, SetTimeout 1000, SetIsLoading True, SetTimeout 1000]\<rparr>"
    using assms(1,2,5) by (simp add: handleSearch_nonblank)
  have s3: "timerExpires p (handleSearch q2 (handleSearch q1 s)) =
      speakResult p
        (js ''Found 6 learning resources for '' @ q1 @ js ''. Click any result to start learning!'')
        (s\<lparr>pending := [q2], searchResults := r1, isLoading := False,
           trace := trace s @ [SetIsLoading True, SetTimeout 1000, SetIsLoading True,
                               SetTimeout 1000, SetSearchResults r1, SetIsLoading False]\<rparr>)"
    unfolding s2 by (simp add: timerExpires_def handleSearch_resume_Inr [OF r1])
  have s4: "timerExpires p (timerExpires p (handleSearch q2 (handleSearch q1 s))) =
      speakResult p
        (js ''Found 6 learning resources for '' @ q2 @ js ''. Click any result to start learning!'')
        ((speakResult p
        (js ''Found 6 learning resources for '' @ q1 @ js ''. Click any result to start learning!'')
        (s\<lparr>pending := [q2], searchResults := r1, isLoading := False,
           trace := trace s @ [SetIsLoading True, SetTimeout 1000, SetIsLoading True,
                               SetTimeout 1000, SetSearchResults r1, SetIsLoading False]\<rparr>))
         \<lparr>pending := [], searchResults := r2, isLoading := False,
           trace := trace (speakResult p
        (js ''Found 6 learning resources for '' @ q1 @ js ''. Click any result to start learning!'')
        (s\<lparr>pending := [q2], searchResults := r1, isLoading := False,
           trace := trace s @ [SetIsLoading True, SetTimeout 1000, SetIsLoading True,
                               SetTimeout 1000, SetSearchResults r1, SetIsLoading False]\<rparr>))
               @ [SetSearchResults r2, SetIsLoading False]\<rparr>)"
    unfolding s3
    by (simp add: timerExpires_def handleSearch_resume_Inr [OF r2] speakResult_def emit_def)
  have a: "pending (handleSearch q2 (handleSearch q1 s)) = [q1, q2]"
    unfolding s2 by simp
  have b: "searchResults (timerExpires p (handleSearch q2 (handleSearch q1 s))) = r1"
      "pending (timerExpires p (handleSearch q2 (handleSearch q1 s))) = [q2]"
    unfolding s3 by (simp_all add: speakResult_def emit_def)
  have c: "searchResults (timerExpires p (timerExpires p (handleSearch q2 (handleSearch q1 s)))) = r2"
      "pending (timerExpires p (timerExpires p (handleSearch q2 (handleSearch q1 s)))) = []"
      "isLoading (timerExpires p (timerExpires p (handleSearch q2 (handleSearch q1 s)))) = False"
    unfolding s4 by (simp_all add: speakResult_def emit_def)
  have d: "filter (\<lambda>a. case a of SetSearchResults r \<Rightarrow> True | _ \<Rightarrow> False)
          (trace (timerExpires p (timerExpires p (handleSearch q2 (handleSearch q1 s)))))
        = filter (\<lambda>a. case a of SetSearchResults r \<Rightarrow> True | _ \<Rightarrow> False) (trace s)
          @ [SetSearchResults r1, SetSearchResults r2]"
    unfolding s4 by (simp add: speakResult_def emit_def)
  have e: "map_sum id searchResults (handleSearch_resume p q1 s') = Inr r1"
      "map_sum id searchResults (handleSearch_resume p q2 s') = Inr r2" for s'
    by (simp_all add: resume_results r1 r2)
  from r1 r2 a b c d e show ?thesis
    by (intro exI [of _ r1] exI [of _ r2] conjI allI)
qed

theorem overlapping_searches_last_wins_witness:
  "trim (js ''machine learning'') \<noteq> [] \<and> trim (js ''cooking'') \<noteq> []
   \<and> isWellFormed (js ''machine learning'') \<and> isWellFormed (js ''cooking'')
   \<and> pending initialState = []
   \<and> Inr (searchResults
        (timerExpires \<lparr>hasSpeechRecognition = True, hasSpeechSynthesis = True\<rparr>
          (timerExpires \<lparr>hasSpeechRecognition = True, hasSpeechSynthesis = True\<rparr>
            (handleSearch (js ''cooking'')
              (handleSearch (js ''machine learning'') initialState)))))
      = generateSearchResults (js ''cooking'')
   \<and> pending
        (timerExpires \<lparr>hasSpeechRecognition = True, hasSpeechSynthesis = True\<rparr>
          (timerExpires \<lparr>hasSpeechRecognition = True, hasSpeechSynthesis = True\<rparr>
            (handleSearch (js ''cooking'')
              (handleSearch (js ''machine learning'') initialState)))) = []"
proof -
  have nb: "trim (js ''machine learning'') \<noteq> []" "trim (js ''cooking'') \<noteq> []"
    by (simp_all add: trim_def char_defs)
  have wf: "isWellFormed (js ''machine learning'')" "isWellFormed (js ''cooking'')"
    by (simp_all add: char_defs)
  have pe: "pending initialState = []"
    by (simp add: initialState_def)
  from overlapping_searches_last_wins [OF nb wf pe,
        of "\<lparr>hasSpeechRecognition = True, hasSpeechSynthesis = True\<rparr>"]
  have "Inr (searchResults
        (timerExpires \<lparr>hasSpeechRecognition = True, hasSpeechSynthesis = True\<rparr>
          (timerExpires \<lparr>hasSpeechRecognition = True, hasSpeechSynthesis = True\<rparr>
            (handleSearch (js ''cooking'')
              (handleSearch (js ''machine learning'') initialState)))))
      = generateSearchResults (js ''cooking'')
   \<and> pending
        (timerExpires \<lparr>hasSpeechRecognition = True, hasSpeechSynthesis = True\<rparr>
          (timerExpires \<lparr>hasSpeechRecognition = True, hasSpeechSynthesis = True\<rparr>
            (handleSearch (js ''cooking'')
              (handleSearch (js ''machine learning'') initialState)))) = []"
    by (elim exE conjE) simp
  with nb wf pe show ?thesis by (intro conjI) simp_all
qed

text \<open>
  When the query of the second search holds an unpaired surrogate, the invocation that
  resolves last has no output and writes nothing: the final results are those of the
  first search.
\<close>

theorem overlapping_search_lone_surrogate:
  "trim (js ''a'') \<noteq> [] \<and> trim [0xD800] \<noteq> []
   \<and> generateSearchResults [0xD800] = Inl URIError
   \<and> Inr (searchResults
        (timerExpires \<lparr>hasSpeechRecognition = True, hasSpeechSynthesis = True\<rparr>
          (timerExpires \<lparr>hasSpeechRecognition = True, hasSpeechSynthesis = True\<rparr>
            (handleSearch [0xD800] (handleSearch (js ''a'') initialState)))))
      = generateSearchResults (js ''a'')
   \<and> pending
        (timerExpires \<lparr>hasSpeechRecognition = True, hasSpeechSynthesis = True\<rparr>
          (timerExpires \<lparr>hasSpeechRecognition = True, hasSpeechSynthesis = True\<rparr>
            (handleSearch [0xD800] (handleSearch (js ''a'') initialState)))) = []"
proof -
  have nb: "trim (js ''a'') \<noteq> []" "trim [0xD800] \<noteq> []"
    by (simp_all add: trim_def char_defs)
  have bad: "generateSearchResults [0xD800] = Inl URIError"
    by (simp add: generateSearchResults_def char_defs)
  have "isWellFormed (js ''a'')" by (simp add: char_defs)
  then obtain r where r: "generateSearchResults (js ''a'') = Inr r"
    using generateSearchResults_defined by blast
  have s2: "handleSearch [0xD800] (handleSearch (js ''a'') initialState) =
      initialState\<lparr>isLoading := True, pending := [js ''a'', [0xD800]],
        trace := [SetIsLoading True, SetTimeout 1000, SetIsLoading True, SetTimeout 1000]\<rparr>"
    using nb by (simp add: handleSearch_nonblank initialState_def)
  show ?thesis
    unfolding s2 using nb bad r
    by (simp add: timerExpires_def handleSearch_resume_Inr [OF r]
        handleSearch_resume_Inl [OF bad] speakResult_def emit_def)
qed

text \<open>
  C10 (as amended). \<open>handleSearch\<close> tests the trimmed query but suspends and later
  synthesizes with the query as it was given. For a well-formed query that is not blank,
  the six titles and descriptions are built from the untrimmed query and every snippet
  contains it. When the query begins (ends) with a white space character, it differs
  from its trimmed form, the encoded query in the five search URLs begins (ends) with
  the percent escape of that character, which is \<open>%20\<close> for a space, and the query part
  of the encyclopedia URL begins (ends) with an underscore.
\<close>

theorem handleSearch_passes_raw_query:
  assumes "trim query \<noteq> []" and "isWellFormed query"
  shows "\<exists>e rs. encodeURIComponent query = Inr e \<and> generateSearchResults query = Inr rs
     \<and> pending (handleSearch query s) = pending s @ [query]
     \<and> map_sum id searchResults (handleSearch_resume p query s') = Inr rs
     \<and> map title rs =
         [query @ js '' - Wikipedia'', query @ js '' - YouTube Tutorials'',
          query @ js '' - Khan Academy'', query @ js '' - Coursera Courses'',
          query @ js '' - Reddit Discussions'', query @ js '' - Google Scholar'']
     \<and> map description rs =
         [js ''Learn comprehensive information about '' @ query @ js '' on Wikipedia'',
          js ''Watch educational videos about '' @ query,
          js ''Free online courses and lessons about '' @ query,
          js ''Professional courses and certifications related to '' @ query,
          js ''Community discussions and real experiences about '' @ query,
          js ''Academic research and scholarly articles about '' @ query]
     \<and> (\<forall>r\<in>set rs. \<exists>before after. snippet r = before @ query @ after)
     \<and> map url rs =
         [js ''https://en.wikipedia.org/wiki/'' @ replaceWhiteSpace query,
          js ''https://www.youtube.com/results?search_query='' @ e @ js ''+tutorial'',
          js ''https://www.khanacademy.org/search?page_search_query='' @ e,
          js ''https://www.coursera.org/search?query='' @ e,
          js ''https://www.reddit.com/search/?q='' @ e,
          js ''https://scholar.google.com/scholar?q='' @ e]
     \<and> (\<forall>w r. query = w # r \<and> isWhiteSpace w \<longrightarrow>
           trim query \<noteq> query
           \<and> (\<exists>e'. e = percentEscape (unat w) @ e')
           \<and> (\<exists>u. replaceWhiteSpace query = 0x5F # u))
     \<and> (\<forall>w r. query = r @ [w] \<and> isWhiteSpace w \<longrightarrow>
           trim query \<noteq> query
           \<and> (\<exists>e'. e = e' @ percentEscape (unat w))
           \<and> (\<exists>u. replaceWhiteSpace query = u @ [0x5F]))
     \<and> percentEscape 0x20 = js ''%20''"
proof -
  from assms(2) obtain e where e: "encodeURIComponent query = Inr e"
    using encode_defined_iff [of query] by auto
  from generateSearchResults_texts [OF e] obtain rs where
    rs: "generateSearchResults query = Inr rs"
    and texts: "map title rs =
         [query @ js '' - Wikipedia'', query @ js '' - YouTube Tutorials'',
          query @ js '' - Khan Academy'', query @ js '' - Coursera Courses'',
          query @ js '' - Reddit Discussions'', query @ js '' - Google Scholar'']"
      "map description rs =
         [js ''Learn comprehensive information about '' @ query @ js '' on Wikipedia'',
          js ''Watch educational videos about '' @ query,
          js ''Free online courses and lessons about '' @ query,
          js ''Professional courses and certifications related to '' @ query,
          js ''Community discussions and real experiences about '' @ query,
          js ''Academic research and scholarly articles about '' @ query]"
      "\<forall>r\<in>set rs. \<exists>before after. snippet r = before @ query @ after"
      "map url rs =
         [js ''https://en.wikipedia.org/wiki/'' @ replaceWhiteSpace query,
          js ''https://www.youtube.com/results?search_query='' @ e @ js ''+tutorial'',
          js ''https://www.khanacademy.org/search?page_search_query='' @ e,
          js ''https://www.coursera.org/search?query='' @ e,
          js ''https://www.reddit.com/search/?q='' @ e,
          js ''https://scholar.google.com/scholar?q='' @ e]"
    by (elim exE conjE)
  have pend: "pending (handleSearch query s) = pending s @ [query]"
    by (simp add: handleSearch_nonblank [OF assms(1)])
  have res: "map_sum id searchResults (handleSearch_resume p query s') = Inr rs"
    by (simp add: resume_results rs)
  have lead: "trim query \<noteq> query \<and> (\<exists>e'. e = percentEscape (unat w) @ e')
        \<and> (\<exists>u. replaceWhiteSpace query = 0x5F # u)"
    if "query = w # r \<and> isWhiteSpace w" for w r
  proof -
    from that have q: "query = w # r" and w: "isWhiteSpace w" by simp_all
    from e encode_leading_whiteSpace [OF w, of r]
    have "\<exists>e'. e = percentEscape (unat w) @ e'"
      unfolding q by (cases "encodeURIComponent r") auto
    with trim_leading_whiteSpace [OF w, of r] replace_leading_whiteSpace [OF w, of r]
    show ?thesis unfolding q by blast
  qed
  have trail: "trim query \<noteq> query \<and> (\<exists>e'. e = e' @ percentEscape (unat w))
        \<and> (\<exists>u. replaceWhiteSpace query = u @ [0x5F])"
    if "query = r @ [w] \<and> isWhiteSpace w" for w r
  proof -
    from that have q: "query = r @ [w]" and w: "isWhiteSpace w" by simp_all
    from e encode_trailing_whiteSpace [OF w, of r]
    have "\<exists>e'. e = e' @ percentEscape (unat w)"
      unfolding q by (cases "encodeURIComponent r") auto
    with trim_trailing_whiteSpace [OF w, of r] replace_trailing_whiteSpace [OF w, of r]
    show ?thesis unfolding q by blast
  qed
  from lead have L: "\<forall>w r. query = w # r \<and> isWhiteSpace w \<longrightarrow>
           trim query \<noteq> query
           \<and> (\<exists>e'. e = percentEscape (unat w) @ e')
           \<and> (\<exists>u. replaceWhiteSpace query = 0x5F # u)"
    by blast
  from trail have T: "\<forall>w r. query = r @ [w] \<and> isWhiteSpace w \<longrightarrow>
           trim query \<noteq> query
           \<and> (\<exists>e'. e = e' @ percentEscape (unat w))
           \<and> (\<exists>u. replaceWhiteSpace query = u @ [0x5F])"
    by blast
  from e rs pend res texts L T percentEscape_space show ?thesis
    by (intro exI [of _ e] exI [of _ rs] conjI)
qed

theorem handleSearch_passes_raw_query_witness:
  "trim (js '' cooking '') = js ''cooking'' \<and> isWellFormed (js '' cooking '')
   \<and> (\<exists>rs. generateSearchResults (js '' cooking '') = Inr rs
        \<and> map title rs =
            [js '' cooking  - Wikipedia'', js '' cooking  - YouTube Tutorials'',
             js '' cooking  - Khan Academy'', js '' cooking  - Coursera Courses'',
             js '' cooking  - Reddit Discussions'', js '' cooking  - Google Scholar'']
        \<and> map url rs =
            [js ''https://en.wikipedia.org/wiki/_cooking_'',
             js ''https://www.youtube.com/results?search_query=%20cooking%20+tutorial'',
             js ''https://www.khanacademy.org/search?page_search_query=%20cooking%20'',
             js ''https://www.coursera.org/search?query=%20cooking%20'',
             js ''https://www.reddit.com/search/?q=%20cooking%20'',
             js ''https://scholar.google.com/scholar?q=%20cooking%20''])"
proof -
  have tr: "trim (js '' cooking '') = js ''cooking''"
    by (simp add: trim_def char_defs)
  then have nb: "trim (js '' cooking '') \<noteq> []"
    by (simp add: js_def)
  have wf: "isWellFormed (js '' cooking '')"
    by (simp add: char_defs)
  have enc: "encodeURIComponent (js '' cooking '') = Inr (js ''%20cooking%20'')"
    by (simp add: char_defs)
  have rep: "replaceWhiteSpace (js '' cooking '') = js ''_cooking_''"
    by (simp add: char_defs)
  from handleSearch_passes_raw_query [OF nb wf, where s = initialState and s' = initialState
        and p = "\<lparr>hasSpeechRecognition = True, hasSpeechSynthesis = True\<rparr>"]
    enc rep tr wf
  show ?thesis
    by (elim exE conjE) (simp add: js_append [symmetric])
qed

text \<open>
  A space followed by an unpaired surrogate has leading white space and other content,
  but yields no titles, descriptions, snippets or URLs.
\<close>

theorem handleSearch_raw_lone_surrogate:
  "isWhiteSpace 0x20 \<and> trim [0x20, 0xD800] = [0xD800]
   \<and> generateSearchResults [0x20, 0xD800] = Inl URIError
   \<and> handleSearch_resume \<lparr>hasSpeechRecognition = True, hasSpeechSynthesis = True\<rparr>
        [0x20, 0xD800] initialState = Inl URIError"
proof -
  have bad: "generateSearchResults [0x20, 0xD800] = Inl URIError"
    by (simp add: generateSearchResults_def char_defs)
  have "isWhiteSpace 0x20" "trim [0x20, 0xD800] = [0xD800]"
    by (simp_all add: trim_def char_defs)
  with bad handleSearch_resume_Inl [OF bad] show ?thesis by simp
qed

end
